theory Spec2Isabelle
  imports Main "HOL-Library.Word"
begin

unbundle bit_operations_syntax

section \<open>Paths and the file system\<close>

text \<open>
  A \<open>pathlib\<close> path is the list of its components; an absolute path starts with the
  empty component, so that joining the components with \<open>/\<close> renders it.
  \<open>Path s\<close> splits the string at \<open>/\<close> and drops empty and \<open>.\<close> components, as
  \<open>PurePosixPath\<close> does (the special root \<open>//\<close> is not distinguished from \<open>/\<close>).
\<close>

type_synonym path = "string list"

fun split_slash :: "string \<Rightarrow> string \<Rightarrow> string list" where
  "split_slash acc [] = [rev acc]"
| "split_slash acc (c # cs) =
     (if c = CHR ''/'' then rev acc # split_slash [] cs else split_slash (c # acc) cs)"

definition Path :: "string \<Rightarrow> path" where
  "Path s = (if s \<noteq> [] \<and> hd s = CHR ''/'' then [''''] else [])
            @ filter (\<lambda>c. c \<noteq> [] \<and> c \<noteq> ''.'') (split_slash [] s)"

fun join_slash :: "string list \<Rightarrow> string" where
  "join_slash [] = []"
| "join_slash [c] = c"
| "join_slash (c # cs) = c @ ''/'' @ join_slash cs"

definition str_path :: "path \<Rightarrow> string" where
  "str_path p = (if p = [] then ''.'' else if p = [''''] then ''/'' else join_slash p)"

datatype node = Dir | File (data: string) (mode: nat)

type_synonym filesystem = "path \<Rightarrow> node option"

definition is_file :: "filesystem \<Rightarrow> path \<Rightarrow> bool" where
  "is_file f p = (case f p of Some (File d m) \<Rightarrow> True | _ \<Rightarrow> False)"

text \<open>The proper, non-empty prefixes of a path: the directories above it.\<close>

definition parents :: "path \<Rightarrow> path list" where
  "parents p = map (\<lambda>n. take n p) [1..<length p]"

fun make_dirs :: "path list \<Rightarrow> filesystem \<Rightarrow> filesystem" where
  "make_dirs [] f = f"
| "make_dirs (d # ds) f = make_dirs ds (f(d \<mapsto> Dir))"

section \<open>Errors, events and the world\<close>

datatype error =
    FileNotFoundError string
  | FileExistsError string
  | NotADirectoryError string
  | IsADirectoryError string
  | Timeout string
  | ConnectionError string
  | HTTPError nat string
  | JSONDecodeError
  | KeyError string
  | ValueError string
  | RuntimeError string
  | ReadError

text \<open>
  The release manifest as the manifest service documents it: \<open>latest\<close> is a version
  id and \<open>versions\<close> maps a version id to its descriptor. A descriptor is the JSON
  object itself, a dictionary from field names to strings, so that a missing
  \<open>url\<close> or \<open>sha256\<close> field is a failed lookup.
\<close>

type_synonym descriptor = "string \<Rightarrow> string option"

record manifest =
  latest :: string
  versions :: "string \<Rightarrow> descriptor option"

text \<open>
  A response of the HTTP library: the status, the final URL, the body, and the body
  parsed as JSON (\<open>None\<close> when \<open>resp.json()\<close> raises).
\<close>

record response =
  status_code :: nat
  url :: string
  content :: string
  json :: "manifest option"

datatype reply = Unreachable | Reply response

text \<open>A member of a tar archive: its name relative to the archive root, its bytes, its mode.\<close>

type_synonym member = "path \<times> string \<times> nat"

text \<open>
  What waiting for the file lock ends in: a timeout, or the lock, after the other
  processes have changed the file system while this one waited.
\<close>

datatype lock_outcome = TimedOut | Acquired "filesystem \<Rightarrow> filesystem"

datatype event =
    Print string
  | HttpGet string "(string \<times> string) list"
  | LockAcquire string
  | LockRelease string
  | FsState filesystem

text \<open>
  The world the module runs in. \<open>network\<close> holds the replies of the successive
  \<open>requests.get\<close> calls, each a function of the request; \<open>tarfile_open\<close> decodes a
  gzip-compressed tar archive (\<open>None\<close> when \<open>tarfile.open\<close> raises); \<open>events\<close> is the
  trace of what the process did, with the file system after each of its writes,
  since other processes read the install root without taking the lock.
\<close>

record world =
  environ :: "string \<Rightarrow> string option"
  home :: path
  fs :: filesystem
  network :: "(string \<Rightarrow> (string \<times> string) list \<Rightarrow> reply) list"
  tarfile_open :: "string \<Rightarrow> member list option"
  lock_wait :: lock_outcome
  lock_held :: bool
  events :: "event list"

type_synonym 'a io = "world \<Rightarrow> (error + 'a) \<times> world"

fun thenE :: "(error + 'a) \<times> world \<Rightarrow> ('a \<Rightarrow> 'b io) \<Rightarrow> (error + 'b) \<times> world" where
  "thenE (Inl e, w) k = (Inl e, w)"
| "thenE (Inr x, w) k = k x w"

definition print :: "string \<Rightarrow> unit io" where
  "print s w = (Inr (), w\<lparr>events := events w @ [Print s]\<rparr>)"

definition set_fs :: "filesystem \<Rightarrow> world \<Rightarrow> world" where
  "set_fs f w = w\<lparr>fs := f, events := events w @ [FsState f]\<rparr>"

definition exists :: "world \<Rightarrow> path \<Rightarrow> bool" where
  "exists w p = (fs w p \<noteq> None)"

text \<open>\<open>p.mkdir(parents=True, exist_ok=True)\<close>\<close>

definition mkdir :: "path \<Rightarrow> unit io" where
  "mkdir p w =
     (if list_ex (is_file (fs w)) (parents p) then (Inl (NotADirectoryError (str_path p)), w)
      else if is_file (fs w) p then (Inl (FileExistsError (str_path p)), w)
      else if fs w p = Some Dir then (Inr (), w)
      else (Inr (), set_fs (make_dirs (parents p @ [p]) (fs w)) w))"

text \<open>\<open>p.chmod(m)\<close>; the mode of a directory is not tracked.\<close>

definition chmod :: "path \<Rightarrow> nat \<Rightarrow> unit io" where
  "chmod p m w =
     (case fs w p of
        None \<Rightarrow> (Inl (FileNotFoundError (str_path p)), w)
      | Some Dir \<Rightarrow> (Inr (), w)
      | Some (File d old) \<Rightarrow> (Inr (), set_fs ((fs w)(p \<mapsto> File d m)) w))"

text \<open>\<open>p.write_text(s)\<close>; a new file gets mode \<open>0o644\<close>.\<close>

definition write_text :: "path \<Rightarrow> string \<Rightarrow> unit io" where
  "write_text p s w =
     (case fs w p of
        Some Dir \<Rightarrow> (Inl (IsADirectoryError (str_path p)), w)
      | Some (File d m) \<Rightarrow> (Inr (), set_fs ((fs w)(p \<mapsto> File s m)) w)
      | None \<Rightarrow>
          if fs w (butlast p) = Some Dir then (Inr (), set_fs ((fs w)(p \<mapsto> File s 420)) w)
          else (Inl (FileNotFoundError (str_path p)), w))"

text \<open>\<open>p.read_text()\<close>\<close>

definition read_text :: "path \<Rightarrow> string io" where
  "read_text p w =
     (case fs w p of
        Some (File d m) \<Rightarrow> (Inr d, w)
      | Some Dir \<Rightarrow> (Inl (IsADirectoryError (str_path p)), w)
      | None \<Rightarrow> (Inl (FileNotFoundError (str_path p)), w))"

text \<open>
  \<open>tar.extractall(root)\<close> writes the members one after the other, each under the
  root, making the directories above it.
\<close>

definition extract_member :: "path \<Rightarrow> member \<Rightarrow> unit io" where
  "extract_member root mb w =
     (case mb of (name, bytes, md) \<Rightarrow>
        let target = root @ name in
        if list_ex (is_file (fs w)) (parents target)
        then (Inl (NotADirectoryError (str_path target)), w)
        else if fs w target = Some Dir then (Inl (IsADirectoryError (str_path target)), w)
        else (Inr (), set_fs ((make_dirs (parents target) (fs w))(target \<mapsto> File bytes md)) w))"

fun extractall :: "path \<Rightarrow> member list \<Rightarrow> unit io" where
  "extractall root [] w = (Inr (), w)"
| "extractall root (mb # mbs) w = thenE (extract_member root mb w) (\<lambda>_. extractall root mbs)"

section \<open>The HTTP client and the file lock\<close>

text \<open>\<open>requests.get(url, params=params)\<close> takes the next reply of the network.\<close>

definition requests_get :: "string \<Rightarrow> (string \<times> string) list \<Rightarrow> response io" where
  "requests_get u params w =
     (let w1 = w\<lparr>events := events w @ [HttpGet u params]\<rparr> in
      case network w of
        [] \<Rightarrow> (Inl (ConnectionError u), w1)
      | r # rs \<Rightarrow>
          (case r u params of
             Unreachable \<Rightarrow> (Inl (ConnectionError u), w1\<lparr>network := rs\<rparr>)
           | Reply resp \<Rightarrow> (Inr resp, w1\<lparr>network := rs\<rparr>)))"

definition raise_for_status :: "response \<Rightarrow> error + unit" where
  "raise_for_status resp =
     (if 400 \<le> status_code resp \<and> status_code resp < 600
      then Inl (HTTPError (status_code resp) (url resp)) else Inr ())"

text \<open>
  \<open>with FileLock(lock_path, timeout=300): body\<close>. The body returns \<open>Some v\<close> when it
  leaves the block by \<open>return v\<close> and \<open>None\<close> when it runs to its end; the lock is
  released however the body ends.
\<close>

definition with_FileLock :: "path \<Rightarrow> 'a io \<Rightarrow> 'a io" where
  "with_FileLock lock_path body w =
     (case lock_wait w of
        TimedOut \<Rightarrow> (Inl (Timeout (str_path lock_path)), w)
      | Acquired others \<Rightarrow>
          (case body (w\<lparr>fs := others (fs w), lock_held := True,
                         events := events w @ [LockAcquire (str_path lock_path)]\<rparr>) of
             (r, w') \<Rightarrow>
               (r, w'\<lparr>lock_held := False,
                      events := events w' @ [LockRelease (str_path lock_path)]\<rparr>)))"

section \<open>SHA-256\<close>

type_synonym u32 = "32 word"

definition rotr :: "nat \<Rightarrow> u32 \<Rightarrow> u32" where
  "rotr n x = drop_bit n x OR push_bit (32 - n) x"

definition sha256_K :: "u32 list" where
  "sha256_K = [
    0x428A2F98, 0x71374491, 0xB5C0FBCF, 0xE9B5DBA5, 0x3956C25B, 0x59F111F1, 0x923F82A4, 0xAB1C5ED5,
    0xD807AA98, 0x12835B01, 0x243185BE, 0x550C7DC3, 0x72BE5D74, 0x80DEB1FE, 0x9BDC06A7, 0xC19BF174,
    0xE49B69C1, 0xEFBE4786, 0x0FC19DC6, 0x240CA1CC, 0x2DE92C6F, 0x4A7484AA, 0x5CB0A9DC, 0x76F988DA,
    0x983E5152, 0xA831C66D, 0xB00327C8, 0xBF597FC7, 0xC6E00BF3, 0xD5A79147, 0x06CA6351, 0x14292967,
    0x27B70A85, 0x2E1B2138, 0x4D2C6DFC, 0x53380D13, 0x650A7354, 0x766A0ABB, 0x81C2C92E, 0x92722C85,
    0xA2BFE8A1, 0xA81A664B, 0xC24B8B70, 0xC76C51A3, 0xD192E819, 0xD6990624, 0xF40E3585, 0x106AA070,
    0x19A4C116, 0x1E376C08, 0x2748774C, 0x34B0BCB5, 0x391C0CB3, 0x4ED8AA4A, 0x5B9CCA4F, 0x682E6FF3,
    0x748F82EE, 0x78A5636F, 0x84C87814, 0x8CC70208, 0x90BEFFFA, 0xA4506CEB, 0xBEF9A3F7, 0xC67178F2]"

definition sha256_H0 :: "u32 list" where
  "sha256_H0 = [0x6A09E667, 0xBB67AE85, 0x3C6EF372, 0xA54FF53A,
                0x510E527F, 0x9B05688C, 0x1F83D9AB, 0x5BE0CD19]"

definition be_bytes :: "nat \<Rightarrow> nat \<Rightarrow> nat list" where
  "be_bytes k n = map (\<lambda>i. (n div 256 ^ (k - 1 - i)) mod 256) [0..<k]"

definition sha256_pad :: "nat list \<Rightarrow> nat list" where
  "sha256_pad m = m @ [128] @ replicate ((119 - length m mod 64) mod 64) 0
                    @ be_bytes 8 (8 * length m)"

definition be_word :: "nat list \<Rightarrow> u32" where
  "be_word bs = of_nat (foldl (\<lambda>a b. 256 * a + b) 0 bs)"

fun chunks :: "nat \<Rightarrow> nat \<Rightarrow> 'a list \<Rightarrow> 'a list list" where
  "chunks 0 k xs = []"
| "chunks (Suc n) k xs = take k xs # chunks n k (drop k xs)"

fun schedule :: "nat \<Rightarrow> u32 list \<Rightarrow> u32 list" where
  "schedule 0 w = w"
| "schedule (Suc n) w =
     (let t = length w;
          x = w ! (t - 15); y = w ! (t - 2);
          s0 = rotr 7 x XOR rotr 18 x XOR drop_bit 3 x;
          s1 = rotr 17 y XOR rotr 19 y XOR drop_bit 10 y
      in schedule n (w @ [w ! (t - 16) + s0 + w ! (t - 7) + s1]))"

fun round256 :: "u32 list \<Rightarrow> u32 \<times> u32 \<Rightarrow> u32 list" where
  "round256 [a, b, c, d, e, f, g, h] (k, w) =
     (let S1 = rotr 6 e XOR rotr 11 e XOR rotr 25 e;
          ch = (e AND f) XOR (NOT e AND g);
          t1 = h + S1 + ch + k + w;
          S0 = rotr 2 a XOR rotr 13 a XOR rotr 22 a;
          mj = (a AND b) XOR (a AND c) XOR (b AND c);
          t2 = S0 + mj
      in [t1 + t2, a, b, c, d + t1, e, f, g])"
| "round256 v _ = v"

definition compress :: "u32 list \<Rightarrow> nat list \<Rightarrow> u32 list" where
  "compress h block =
     (let w = schedule 48 (map be_word (chunks 16 4 block))
      in map2 (+) h (foldl round256 h (zip sha256_K w)))"

definition sha256 :: "nat list \<Rightarrow> u32 list" where
  "sha256 m = (let p = sha256_pad m in foldl compress sha256_H0 (chunks (length p div 64) 64 p))"

definition hexchar :: "nat \<Rightarrow> char" where
  "hexchar n = (''0123456789abcdef'') ! n"

definition hex32 :: "u32 \<Rightarrow> string" where
  "hex32 w = map (\<lambda>i. hexchar ((unat w div 16 ^ (7 - i)) mod 16)) [0..<8]"

text \<open>\<open>hashlib.sha256(content).hexdigest()\<close>: 64 lower-case hexadecimal digits.\<close>

definition sha256_hexdigest :: "string \<Rightarrow> string" where
  "sha256_hexdigest bytes = concat (map hex32 (sha256 (map of_char bytes)))"

section \<open>orchard/engine/fetch.py\<close>

definition MANIFEST_URL :: string where
  "MANIFEST_URL = ''https://prod.proxy.ing/functions/v1/get-release-manifest''"

definition DEFAULT_CHANNEL :: string where
  "DEFAULT_CHANNEL = ''stable''"

definition ORCHARD_HOME :: "world \<Rightarrow> path" where
  "ORCHARD_HOME w = home w @ [''.orchard'']"

definition binary_path :: "world \<Rightarrow> path" where
  "binary_path w = ORCHARD_HOME w @ [''bin'', ''proxy_inference_engine'']"

definition version_file :: "world \<Rightarrow> path" where
  "version_file w = ORCHARD_HOME w @ [''version.txt'']"

text \<open>Step 2 of \<open>download_engine\<close> (lines 61 to 68): the version and its descriptor.\<close>

definition resolve_version ::
    "manifest \<Rightarrow> string \<Rightarrow> string option \<Rightarrow> error + string \<times> descriptor" where
  "resolve_version m channel version =
     (let v = (case version of None \<Rightarrow> latest m | Some r \<Rightarrow> r) in
      case versions m v of
        None \<Rightarrow> Inl (ValueError (''Version '' @ v @ '' not found in '' @ channel @ '' channel''))
      | Some info \<Rightarrow> Inr (v, info))"

definition getitem :: "descriptor \<Rightarrow> string \<Rightarrow> error + string" where
  "getitem info k = (case info k of None \<Rightarrow> Inl (KeyError k) | Some v \<Rightarrow> Inr v)"

text \<open>Step 4 of \<open>download_engine\<close> (lines 80 to 86).\<close>

definition verify_sha256 :: "string \<Rightarrow> string \<Rightarrow> error + unit" where
  "verify_sha256 bytes expected_sha256 =
     (let actual_sha256 = sha256_hexdigest bytes in
      if expected_sha256 \<noteq> [] \<and> actual_sha256 \<noteq> expected_sha256
      then Inl (RuntimeError (''SHA256 mismatch!'' @ [CHR 0x0A]
                  @ ''  Expected: '' @ expected_sha256 @ [CHR 0x0A]
                  @ ''  Got:      '' @ actual_sha256))
      else Inr ())"

definition lift :: "error + 'a \<Rightarrow> 'a io" where
  "lift r w = (r, w)"

definition bind :: "'a io \<Rightarrow> ('a \<Rightarrow> 'b io) \<Rightarrow> 'b io" where
  "bind m k w = thenE (m w) k"

text \<open>
  Steps 5 to 7 of \<open>download_engine\<close> (lines 88 to 102): extract the archive into the
  install root, make the binary executable, write the version file.
\<close>

definition install_archive :: "string \<Rightarrow> string \<Rightarrow> unit io" where
  "install_archive v bytes =
     bind (\<lambda>w. mkdir (ORCHARD_HOME w) w) (\<lambda>_.
     bind (\<lambda>w. lift (case tarfile_open w bytes of
                         None \<Rightarrow> Inl ReadError | Some mbs \<Rightarrow> Inr mbs) w) (\<lambda>mbs.
     bind (\<lambda>w. extractall (ORCHARD_HOME w) mbs w) (\<lambda>_.
     bind (\<lambda>w. chmod (binary_path w) 493 w) (\<lambda>_.
     bind (\<lambda>w. write_text (version_file w) v w) (\<lambda>_ w.
       print (''Orchard engine '' @ v @ '' installed to '' @ str_path (ORCHARD_HOME w)) w)))))"

definition download_engine :: "string \<Rightarrow> string option \<Rightarrow> unit io" where
  "download_engine channel version =
     bind (requests_get MANIFEST_URL [(''channel'', channel)]) (\<lambda>resp.
     bind (lift (raise_for_status resp)) (\<lambda>_.
     bind (lift (case json resp of None \<Rightarrow> Inl JSONDecodeError | Some m \<Rightarrow> Inr m)) (\<lambda>m.
     bind (lift (resolve_version m channel version)) (\<lambda>(v, info).
     bind (lift (getitem info ''url'')) (\<lambda>u.
     bind (lift (getitem info ''sha256'')) (\<lambda>expected_sha256.
     bind (print (''Downloading Orchard engine '' @ v @ ''...'')) (\<lambda>_.
     bind (requests_get u []) (\<lambda>resp2.
     bind (lift (raise_for_status resp2)) (\<lambda>_.
     bind (lift (verify_sha256 (content resp2) expected_sha256)) (\<lambda>_.
       install_archive v (content resp2)))))))))))"

text \<open>
  Lines 29 to 50 of \<open>get_engine_path\<close>: the managed install. The body of the \<open>with\<close>
  block gives \<open>Some binary_path\<close> when it returns from inside the block (line 42) and
  \<open>None\<close> when it runs to its end.
\<close>

definition managed_engine_path :: "path io" where
  "managed_engine_path w =
     (if exists w (binary_path w) then (Inr (binary_path w), w)
      else
        bind (mkdir (ORCHARD_HOME w)) (\<lambda>_.
        bind (with_FileLock (ORCHARD_HOME w @ [''install.lock''])
                (\<lambda>w1. if exists w1 (binary_path w1) then (Inr (Some (binary_path w1)), w1)
                      else bind (print ''Orchard engine not found. Downloading...'') (\<lambda>_.
                           bind (download_engine DEFAULT_CHANNEL None) (\<lambda>_.
                           lift (Inr None))) w1))
          (\<lambda>returned w2.
             case returned of
               Some p \<Rightarrow> (Inr p, w2)
             | None \<Rightarrow>
                 if \<not> exists w2 (binary_path w2)
                 then (Inl (RuntimeError ''Download completed but binary not found''), w2)
                 else (Inr (binary_path w2), w2))) w)"

text \<open>
  \<open>get_engine_path\<close>: the override of lines 19 to 27 is taken when the variable is set
  to a non-empty string.
\<close>

definition get_engine_path :: "path io" where
  "get_engine_path w =
     (case environ w ''PIE_LOCAL_BUILD'' of
        Some (c # cs) \<Rightarrow>
          (let local_path = Path (c # cs) @ [''bin'', ''proxy_inference_engine''] in
           if exists w local_path then (Inr local_path, w)
           else (Inl (FileNotFoundError
                   (''PIE_LOCAL_BUILD set but binary not found: '' @ str_path local_path)), w))
      | _ \<Rightarrow> managed_engine_path w)"

section \<open>The installed version\<close>

text \<open>\<open>str.isspace\<close> on the code points below 256, and \<open>str.strip()\<close>.\<close>

definition isspace :: "char \<Rightarrow> bool" where
  "isspace c = (of_char c \<in> set [9, 10, 11, 12, 13, 28, 29, 30, 31, 32, 133, 160 :: nat])"

definition strip :: "string \<Rightarrow> string" where
  "strip s = rev (dropWhile isspace (rev (dropWhile isspace s)))"

definition get_installed_version :: "string option io" where
  "get_installed_version w =
     (if exists w (version_file w)
      then bind (read_text (version_file w)) (\<lambda>t. lift (Inr (Some (strip t)))) w
      else (Inr None, w))"

text \<open>\<open>not installed\<close> holds for \<open>None\<close> and for the empty string.\<close>

definition check_for_updates :: "string \<Rightarrow> string option io" where
  "check_for_updates channel =
     bind get_installed_version (\<lambda>installed.
       if installed = None \<or> installed = Some [] then lift (Inr None)
       else
         bind (requests_get MANIFEST_URL [(''channel'', channel)]) (\<lambda>resp.
         bind (lift (raise_for_status resp)) (\<lambda>_.
         bind (lift (case json resp of None \<Rightarrow> Inl JSONDecodeError | Some m \<Rightarrow> Inr m)) (\<lambda>m.
           if Some (latest m) \<noteq> installed then lift (Inr (Some (latest m)))
           else lift (Inr None)))))"

section \<open>Frame conditions\<close>

text \<open>
  An action does not look at the environment variables when changing them beforehand
  changes nothing but the variables of the world it ends in; it keeps the lock free
  when it never ends with the lock held, started without it.
\<close>

definition env_frame :: "'a io \<Rightarrow> bool" where
  "env_frame f = (\<forall>w e. f (w\<lparr>environ := e\<rparr>) = (fst (f w), (snd (f w))\<lparr>environ := e\<rparr>))"

definition keeps_unlocked :: "'a io \<Rightarrow> bool" where
  "keeps_unlocked f = (\<forall>w. \<not> lock_held w \<longrightarrow> \<not> lock_held (snd (f w)))"

section \<open>Concrete worlds\<close>

text \<open>
  A machine on which nothing is installed: the home directory exists, the network
  does not answer, and the lock is free.
\<close>

definition home_u :: path where
  "home_u = ['''', ''home'', ''u'']"

definition engine_u :: path where
  "engine_u = ['''', ''home'', ''u'', ''.orchard'', ''bin'', ''proxy_inference_engine'']"

definition version_u :: path where
  "version_u = ['''', ''home'', ''u'', ''.orchard'', ''version.txt'']"

definition w_fresh :: world where
  "w_fresh = \<lparr>environ = Map.empty, home = home_u,
     fs = [[''''] \<mapsto> Dir, ['''', ''home''] \<mapsto> Dir, ['''', ''home'', ''u''] \<mapsto> Dir],
     network = [], tarfile_open = (\<lambda>_. None), lock_wait = Acquired (\<lambda>f. f),
     lock_held = False, events = []\<rparr>"

text \<open>The engine is installed.\<close>

definition w_installed :: world where
  "w_installed = w_fresh\<lparr>fs := (fs w_fresh)(engine_u \<mapsto> File ''ELF'' 493)\<rparr>"

text \<open>Another process installs the engine while this one waits for the lock.\<close>

definition w_raced :: world where
  "w_raced = w_fresh\<lparr>lock_wait := Acquired (\<lambda>f. f(engine_u \<mapsto> File ''ELF'' 493))\<rparr>"

text \<open>The engine is installed, and the override points to a directory without the binary.\<close>

definition w_override :: world where
  "w_override = w_installed\<lparr>environ := [''PIE_LOCAL_BUILD'' \<mapsto> ''/opt/pie'']\<rparr>"

text \<open>The engine is installed, and the override variable is set to the empty string.\<close>

definition w_empty_override :: world where
  "w_empty_override = w_installed\<lparr>environ := [''PIE_LOCAL_BUILD'' \<mapsto> '''']\<rparr>"

text \<open>The version file holds a space and a newline.\<close>

definition w_blank :: world where
  "w_blank = w_installed\<lparr>fs := (fs w_installed)(version_u \<mapsto> File [CHR '' '', CHR 0x0A] 420)\<rparr>"

text \<open>The manifest of the specification's example, with no hash given.\<close>

definition desc_120 :: descriptor where
  "desc_120 = [''url'' \<mapsto> ''https://x/a.tgz'', ''sha256'' \<mapsto> '''']"

definition manifest_120 :: manifest where
  "manifest_120 = \<lparr>latest = ''1.2.0'', versions = [''1.2.0'' \<mapsto> desc_120]\<rparr>"

section \<open>What the actions leave alone\<close>

lemma env_frameI: "(\<And>w e. f (w\<lparr>environ := e\<rparr>) = (fst (f w), (snd (f w))\<lparr>environ := e\<rparr>)) \<Longrightarrow> env_frame f"
  by (simp add: env_frame_def)

lemma env_frameD: "env_frame f \<Longrightarrow> f (w\<lparr>environ := e\<rparr>) = (fst (f w), (snd (f w))\<lparr>environ := e\<rparr>)"
  by (simp add: env_frame_def)

lemma env_frame_lift: "env_frame (lift r)"
  by (simp add: env_frame_def lift_def)

lemma env_frame_print: "env_frame (print s)"
  by (simp add: env_frame_def print_def)

lemma env_frame_bind:
  assumes "env_frame m" and "\<And>x. env_frame (k x)"
  shows "env_frame (bind m k)"
proof (rule env_frameI)
  fix w e
  obtain r w' where mw: "m w = (r, w')" by (cases "m w")
  have "m (w\<lparr>environ := e\<rparr>) = (r, w'\<lparr>environ := e\<rparr>)"
    using env_frameD [OF assms(1), where w=w and e=e] mw by simp
  then show "bind m k (w\<lparr>environ := e\<rparr>) = (fst (bind m k w), (snd (bind m k w))\<lparr>environ := e\<rparr>)"
    using mw env_frameD [OF assms(2)] by (cases r) (simp_all add: bind_def)
qed

lemma env_frame_mkdir: "env_frame (\<lambda>w. mkdir (ORCHARD_HOME w) w)"
  by (simp add: env_frame_def mkdir_def ORCHARD_HOME_def set_fs_def)

lemma env_frame_mkdir': "env_frame (mkdir p)"
  by (simp add: env_frame_def mkdir_def set_fs_def)

lemma env_frame_chmod: "env_frame (\<lambda>w. chmod (binary_path w) m w)"
  by (simp add: env_frame_def chmod_def binary_path_def ORCHARD_HOME_def set_fs_def
      split: option.splits node.splits)

lemma env_frame_write_text: "env_frame (\<lambda>w. write_text (version_file w) v w)"
  by (simp add: env_frame_def write_text_def version_file_def ORCHARD_HOME_def set_fs_def
      split: option.splits node.splits)

lemma env_frame_extract_member: "env_frame (extract_member root mb)"
  by (simp add: env_frame_def extract_member_def set_fs_def Let_def split: prod.splits)

lemma env_frame_extractall': "env_frame (extractall root mbs)"
proof (induction mbs)
  case Nil
  show ?case by (simp add: env_frame_def)
next
  case (Cons mb mbs)
  have "extractall root (mb # mbs) = bind (extract_member root mb) (\<lambda>_. extractall root mbs)"
    by (rule ext) (simp add: bind_def)
  then show ?case using env_frame_bind [OF env_frame_extract_member] Cons by simp
qed

lemma env_frame_extractall: "env_frame (\<lambda>w. extractall (ORCHARD_HOME w) mbs w)"
  using env_frame_extractall' by (simp add: env_frame_def ORCHARD_HOME_def)

lemma env_frame_requests_get: "env_frame (requests_get u ps)"
  by (simp add: env_frame_def requests_get_def Let_def split: list.splits reply.splits)

lemma env_frame_tarfile_open:
  "env_frame (\<lambda>w. lift (case tarfile_open w bytes of None \<Rightarrow> Inl ReadError | Some mbs \<Rightarrow> Inr mbs) w)"
  by (simp add: env_frame_def lift_def)

lemma env_frame_install_archive: "env_frame (install_archive v bytes)"
  unfolding install_archive_def
  apply (intro env_frame_bind env_frame_mkdir env_frame_tarfile_open env_frame_extractall
      env_frame_chmod env_frame_write_text)
  apply (simp add: env_frame_def print_def ORCHARD_HOME_def)
  done

lemma env_frame_download_engine: "env_frame (download_engine channel version)"
  unfolding download_engine_def
  by (intro env_frame_bind env_frame_requests_get env_frame_lift env_frame_print
      env_frame_install_archive) (simp add: split_def env_frame_bind env_frame_requests_get env_frame_lift env_frame_print
      env_frame_install_archive)


lemma env_frame_with_FileLock:
  assumes "env_frame body"
  shows "env_frame (with_FileLock p body)"
proof (rule env_frameI)
  fix w e
  show "with_FileLock p body (w\<lparr>environ := e\<rparr>)
          = (fst (with_FileLock p body w), (snd (with_FileLock p body w))\<lparr>environ := e\<rparr>)"
  proof (cases "lock_wait w")
    case TimedOut
    then show ?thesis by (simp add: with_FileLock_def)
  next
    case (Acquired others)
    let ?w1 = "w\<lparr>fs := others (fs w), lock_held := True,
                   events := events w @ [LockAcquire (str_path p)]\<rparr>"
    have eq: "w\<lparr>environ := e, fs := others (fs w), lock_held := True,
                   events := events w @ [LockAcquire (str_path p)]\<rparr> = ?w1\<lparr>environ := e\<rparr>"
      by simp
    obtain r w' where b: "body ?w1 = (r, w')" by (cases "body ?w1")
    have "body (w\<lparr>environ := e, fs := others (fs w), lock_held := True,
                   events := events w @ [LockAcquire (str_path p)]\<rparr>) = (r, w'\<lparr>environ := e\<rparr>)"
      unfolding eq using env_frameD [OF assms, where w="?w1" and e=e] b by simp
    then show ?thesis using Acquired b by (simp add: with_FileLock_def)
  qed
qed

lemma env_frame_critical_section:
  "env_frame (\<lambda>w1. if exists w1 (binary_path w1) then (Inr (Some (binary_path w1)), w1)
                    else bind (print ''Orchard engine not found. Downloading...'') (\<lambda>_.
                         bind (download_engine DEFAULT_CHANNEL None) (\<lambda>_.
                         lift (Inr None))) w1)"
proof (rule env_frameI)
  fix w e
  have d: "env_frame (bind (print ''Orchard engine not found. Downloading...'') (\<lambda>_.
             bind (download_engine DEFAULT_CHANNEL None) (\<lambda>_. lift (Inr (None :: path option)))))"
    by (intro env_frame_bind env_frame_print env_frame_download_engine env_frame_lift)
  show "(if exists (w\<lparr>environ := e\<rparr>) (binary_path (w\<lparr>environ := e\<rparr>))
         then (Inr (Some (binary_path (w\<lparr>environ := e\<rparr>))), w\<lparr>environ := e\<rparr>)
         else bind (print ''Orchard engine not found. Downloading...'') (\<lambda>_.
                bind (download_engine DEFAULT_CHANNEL None) (\<lambda>_. lift (Inr None)))
                (w\<lparr>environ := e\<rparr>))
       = (fst (if exists w (binary_path w) then (Inr (Some (binary_path w)), w)
               else bind (print ''Orchard engine not found. Downloading...'') (\<lambda>_.
                      bind (download_engine DEFAULT_CHANNEL None) (\<lambda>_. lift (Inr None))) w),
          (snd (if exists w (binary_path w) then (Inr (Some (binary_path w)), w)
               else bind (print ''Orchard engine not found. Downloading...'') (\<lambda>_.
                      bind (download_engine DEFAULT_CHANNEL None) (\<lambda>_. lift (Inr None))) w))
            \<lparr>environ := e\<rparr>)"
    using env_frameD [OF d, where w=w and e=e]
    by (simp add: exists_def binary_path_def ORCHARD_HOME_def)
qed

lemma env_frame_after_lock:
  "env_frame (\<lambda>w2. case returned of
               Some p \<Rightarrow> (Inr p, w2)
             | None \<Rightarrow>
                 if \<not> exists w2 (binary_path w2)
                 then (Inl (RuntimeError ''Download completed but binary not found''), w2)
                 else (Inr (binary_path w2), w2))"
  by (simp add: env_frame_def exists_def binary_path_def ORCHARD_HOME_def split: option.splits)

lemma env_frame_managed: "env_frame managed_engine_path"
proof (rule env_frameI)
  fix w e
  let ?rest = "\<lambda>h. bind (mkdir h) (\<lambda>_.
        bind (with_FileLock (h @ [''install.lock''])
                (\<lambda>w1. if exists w1 (binary_path w1) then (Inr (Some (binary_path w1)), w1)
                      else bind (print ''Orchard engine not found. Downloading...'') (\<lambda>_.
                           bind (download_engine DEFAULT_CHANNEL None) (\<lambda>_.
                           lift (Inr None))) w1))
          (\<lambda>returned w2.
             case returned of
               Some p \<Rightarrow> (Inr p, w2)
             | None \<Rightarrow>
                 if \<not> exists w2 (binary_path w2)
                 then (Inl (RuntimeError ''Download completed but binary not found''), w2)
                 else (Inr (binary_path w2), w2)))"
  have r: "env_frame (?rest h)" for h
    by (intro env_frame_bind env_frame_mkdir' env_frame_with_FileLock
        env_frame_critical_section env_frame_after_lock)
  show "managed_engine_path (w\<lparr>environ := e\<rparr>)
          = (fst (managed_engine_path w), (snd (managed_engine_path w))\<lparr>environ := e\<rparr>)"
    using env_frameD [OF r [of "ORCHARD_HOME w"], where w=w and e=e]
    by (simp add: managed_engine_path_def exists_def binary_path_def ORCHARD_HOME_def)
qed

lemma keeps_unlocked_bind:
  assumes "keeps_unlocked m" and "\<And>x. keeps_unlocked (k x)"
  shows "keeps_unlocked (bind m k)"
  unfolding keeps_unlocked_def
proof (intro allI impI)
  fix w :: world assume u: "\<not> lock_held w"
  obtain r w' where mw: "m w = (r, w')" by (cases "m w")
  then have "\<not> lock_held w'" using assms(1) u by (auto simp: keeps_unlocked_def)
  then show "\<not> lock_held (snd (bind m k w))"
    using mw assms(2) by (cases r) (auto simp: bind_def keeps_unlocked_def)
qed

lemma keeps_unlocked_mkdir: "keeps_unlocked (mkdir p)"
  by (simp add: keeps_unlocked_def mkdir_def set_fs_def)

text \<open>Whatever the body does and however it ends, the lock is not held afterwards.\<close>

lemma keeps_unlocked_with_FileLock: "keeps_unlocked (with_FileLock p body)"
  by (simp add: keeps_unlocked_def with_FileLock_def split: lock_outcome.splits prod.splits)

lemma keeps_unlocked_after_lock:
  "keeps_unlocked (\<lambda>w2. case returned of
               Some p \<Rightarrow> (Inr p, w2)
             | None \<Rightarrow>
                 if \<not> exists w2 (binary_path w2)
                 then (Inl (RuntimeError ''Download completed but binary not found''), w2)
                 else (Inr (binary_path w2), w2))"
  by (simp add: keeps_unlocked_def split: option.splits)

lemma keeps_unlocked_managed: "keeps_unlocked managed_engine_path"
proof -
  have r: "keeps_unlocked (bind (mkdir h) (\<lambda>_.
        bind (with_FileLock (h @ [''install.lock''])
                (\<lambda>w1. if exists w1 (binary_path w1) then (Inr (Some (binary_path w1)), w1)
                      else bind (print ''Orchard engine not found. Downloading...'') (\<lambda>_.
                           bind (download_engine DEFAULT_CHANNEL None) (\<lambda>_.
                           lift (Inr None))) w1))
          (\<lambda>returned w2.
             case returned of
               Some p \<Rightarrow> (Inr p, w2)
             | None \<Rightarrow>
                 if \<not> exists w2 (binary_path w2)
                 then (Inl (RuntimeError ''Download completed but binary not found''), w2)
                 else (Inr (binary_path w2), w2))))" for h
    by (intro keeps_unlocked_bind keeps_unlocked_mkdir keeps_unlocked_with_FileLock
        keeps_unlocked_after_lock)
  show ?thesis
    unfolding keeps_unlocked_def
  proof (intro allI impI)
    fix w :: world assume "\<not> lock_held w"
    then show "\<not> lock_held (snd (managed_engine_path w))"
      using r [of "ORCHARD_HOME w"] by (simp add: managed_engine_path_def keeps_unlocked_def)
  qed
qed

section \<open>Version resolution\<close>

text \<open>
  C4. With no requested version, version resolution returns the descriptor that the
  manifest holds for its \<open>latest\<close> version; a requested version that the manifest
  does not hold fails with the version-not-found error (a \<open>ValueError\<close>) whose message
  names the version and the channel.
\<close>

theorem resolve_version_latest_or_not_found:
  "(versions m (latest m) = Some d \<longrightarrow> resolve_version m channel None = Inr (latest m, d))
   \<and> (versions m v = None \<longrightarrow>
        resolve_version m channel (Some v) =
          Inl (ValueError (''Version '' @ v @ '' not found in '' @ channel @ '' channel'')))"
  by (simp add: resolve_version_def)

theorem resolve_version_latest_or_not_found_witness:
  "versions manifest_120 (latest manifest_120) = Some desc_120
   \<and> resolve_version manifest_120 ''stable'' None = Inr (''1.2.0'', desc_120)
   \<and> versions manifest_120 ''9.9.9'' = None
   \<and> resolve_version manifest_120 ''stable'' (Some ''9.9.9'') =
       Inl (ValueError ''Version 9.9.9 not found in stable channel'')"
proof -
  have a: "versions manifest_120 (latest manifest_120) = Some desc_120"
    by (simp add: manifest_120_def)
  have b: "versions manifest_120 ''9.9.9'' = None"
    by (simp add: manifest_120_def)
  have l: "latest manifest_120 = ''1.2.0''"
    by (simp add: manifest_120_def)
  show ?thesis
    using a b l
      resolve_version_latest_or_not_found
        [of manifest_120 desc_120 "''stable''" "''9.9.9''"]
    by simp
qed

section \<open>Path resolution with an override\<close>

text \<open>
  C6. When \<open>PIE_LOCAL_BUILD\<close> is set to a non-empty directory path under which
  \<open>bin/proxy_inference_engine\<close> does not exist, \<open>get_engine_path\<close> fails with the
  configuration error (a \<open>FileNotFoundError\<close> naming the missing path) and leaves the
  world as it was: nothing of the managed install path is looked at or returned.
\<close>

theorem override_missing_binary_fails:
  assumes "environ w ''PIE_LOCAL_BUILD'' = Some s" and "s \<noteq> []"
    and "\<not> exists w (Path s @ [''bin'', ''proxy_inference_engine''])"
  shows "get_engine_path w =
           (Inl (FileNotFoundError (''PIE_LOCAL_BUILD set but binary not found: ''
                   @ str_path (Path s @ [''bin'', ''proxy_inference_engine'']))), w)"
  using assms by (cases s) (simp_all add: get_engine_path_def)

text \<open>The override fails although the managed binary is installed.\<close>

theorem override_missing_binary_fails_witness:
  "environ w_override ''PIE_LOCAL_BUILD'' = Some ''/opt/pie'' \<and> ''/opt/pie'' \<noteq> []
   \<and> \<not> exists w_override (Path ''/opt/pie'' @ [''bin'', ''proxy_inference_engine''])
   \<and> exists w_override (binary_path w_override)
   \<and> get_engine_path w_override =
       (Inl (FileNotFoundError
          ''PIE_LOCAL_BUILD set but binary not found: /opt/pie/bin/proxy_inference_engine''),
        w_override)"
proof -
  have a: "environ w_override ''PIE_LOCAL_BUILD'' = Some ''/opt/pie''"
    by (simp add: w_override_def)
  have b: "''/opt/pie'' \<noteq> []" by simp
  have c: "\<not> exists w_override (Path ''/opt/pie'' @ [''bin'', ''proxy_inference_engine''])"
    by (simp add: w_override_def w_installed_def w_fresh_def engine_u_def exists_def Path_def)
  have d: "exists w_override (binary_path w_override)"
    by (simp add: w_override_def w_installed_def w_fresh_def engine_u_def home_u_def
        exists_def binary_path_def ORCHARD_HOME_def)
  show ?thesis using a b c d override_missing_binary_fails [OF a b c]
    by (simp add: Path_def str_path_def)
qed

text \<open>
  C9. When \<open>PIE_LOCAL_BUILD\<close> is set to the empty string, \<open>get_engine_path\<close> does what
  it does when the variable is not set: the same result and the same final world, up to
  the variable itself.
\<close>

theorem empty_override_is_unset:
  assumes "environ w ''PIE_LOCAL_BUILD'' = Some []"
  shows "get_engine_path w =
           (case get_engine_path (w\<lparr>environ := (environ w)(''PIE_LOCAL_BUILD'' := None)\<rparr>) of
              (r, w') \<Rightarrow> (r, w'\<lparr>environ := environ w\<rparr>))"
proof -
  let ?w0 = "w\<lparr>environ := (environ w)(''PIE_LOCAL_BUILD'' := None)\<rparr>"
  have a: "get_engine_path w = managed_engine_path w"
    using assms by (simp add: get_engine_path_def)
  have b: "get_engine_path ?w0 = managed_engine_path ?w0"
    by (simp add: get_engine_path_def)
  have c: "?w0\<lparr>environ := environ w\<rparr> = w" by simp
  have "managed_engine_path (?w0\<lparr>environ := environ w\<rparr>)
          = (fst (managed_engine_path ?w0),
             (snd (managed_engine_path ?w0))\<lparr>environ := environ w\<rparr>)"
    by (rule env_frameD [OF env_frame_managed])
  then show ?thesis unfolding c a b by (simp add: split_def)
qed

theorem empty_override_is_unset_witness:
  "environ w_empty_override ''PIE_LOCAL_BUILD'' = Some []
   \<and> get_engine_path w_empty_override = (Inr engine_u, w_empty_override)
   \<and> get_engine_path w_empty_override =
       (case get_engine_path
               (w_empty_override\<lparr>environ :=
                  (environ w_empty_override)(''PIE_LOCAL_BUILD'' := None)\<rparr>) of
          (r, w') \<Rightarrow> (r, w'\<lparr>environ := environ w_empty_override\<rparr>))"
proof -
  have a: "environ w_empty_override ''PIE_LOCAL_BUILD'' = Some []"
    by (simp add: w_empty_override_def)
  have b: "get_engine_path w_empty_override = (Inr engine_u, w_empty_override)"
    by (simp add: get_engine_path_def managed_engine_path_def w_empty_override_def
        w_installed_def w_fresh_def engine_u_def home_u_def exists_def binary_path_def
        ORCHARD_HOME_def)
  show ?thesis using a b empty_override_is_unset [OF a] by simp
qed

section \<open>The fast path and the check under the lock\<close>

text \<open>
  C7. With no override set, when the binary exists at entry \<open>get_engine_path\<close> returns
  its path and leaves the world as it was (no lock, no request, no write); when it
  appears while the process waits for the lock, \<open>get_engine_path\<close> returns its path
  having only made the install root, taken the lock and released it: no request is
  sent and nothing is extracted.
\<close>

theorem existing_binary_returned_without_download:
  assumes "environ w ''PIE_LOCAL_BUILD'' = None \<or> environ w ''PIE_LOCAL_BUILD'' = Some []"
  shows "(exists w (binary_path w) \<longrightarrow> get_engine_path w = (Inr (binary_path w), w))
       \<and> (\<not> exists w (binary_path w) \<and> mkdir (ORCHARD_HOME w) w = (Inr (), w1)
            \<and> lock_wait w = Acquired others \<and> others (fs w1) (binary_path w) \<noteq> None
          \<longrightarrow> get_engine_path w =
                (Inr (binary_path w),
                 w1\<lparr>fs := others (fs w1), lock_held := False,
                    events := events w1
                      @ [LockAcquire (str_path (ORCHARD_HOME w @ [''install.lock''])),
                         LockRelease (str_path (ORCHARD_HOME w @ [''install.lock'']))]\<rparr>))"
proof -
  have g: "get_engine_path w = managed_engine_path w"
    using assms by (auto simp: get_engine_path_def)
  have a: "exists w (binary_path w) \<longrightarrow> managed_engine_path w = (Inr (binary_path w), w)"
    by (simp add: managed_engine_path_def)
  have b: "managed_engine_path w =
                (Inr (binary_path w),
                 w1\<lparr>fs := others (fs w1), lock_held := False,
                    events := events w1
                      @ [LockAcquire (str_path (ORCHARD_HOME w @ [''install.lock''])),
                         LockRelease (str_path (ORCHARD_HOME w @ [''install.lock'']))]\<rparr>)"
    if h: "\<not> exists w (binary_path w)" "mkdir (ORCHARD_HOME w) w = (Inr (), w1)"
       "lock_wait w = Acquired others" "others (fs w1) (binary_path w) \<noteq> None"
  proof -
    have w1: "home w1 = home w" "lock_wait w1 = lock_wait w"
      using h(2) by (auto simp: mkdir_def set_fs_def split: if_splits)
    show ?thesis
      using h w1
      by (simp add: managed_engine_path_def bind_def with_FileLock_def exists_def
          binary_path_def ORCHARD_HOME_def)
  qed
  show ?thesis using g a b by simp
qed

theorem existing_binary_returned_without_download_witness:
  "(environ w_installed ''PIE_LOCAL_BUILD'' = None
      \<or> environ w_installed ''PIE_LOCAL_BUILD'' = Some [])
   \<and> exists w_installed (binary_path w_installed)
   \<and> get_engine_path w_installed = (Inr engine_u, w_installed)
   \<and> (environ w_raced ''PIE_LOCAL_BUILD'' = None \<or> environ w_raced ''PIE_LOCAL_BUILD'' = Some [])
   \<and> \<not> exists w_raced (binary_path w_raced)
   \<and> fst (get_engine_path w_raced) = Inr engine_u
   \<and> network (snd (get_engine_path w_raced)) = network w_raced
   \<and> tl (events (snd (get_engine_path w_raced)))
       = [LockAcquire ''/home/u/.orchard/install.lock'',
          LockRelease ''/home/u/.orchard/install.lock'']"
proof -
  let ?w1 = "snd (mkdir (ORCHARD_HOME w_raced) w_raced)"
  let ?others = "\<lambda>f :: filesystem. f(engine_u \<mapsto> File ''ELF'' 493)"
  have e1: "environ w_installed ''PIE_LOCAL_BUILD'' = None
              \<or> environ w_installed ''PIE_LOCAL_BUILD'' = Some []"
    by (simp add: w_installed_def w_fresh_def)
  have e2: "environ w_raced ''PIE_LOCAL_BUILD'' = None
              \<or> environ w_raced ''PIE_LOCAL_BUILD'' = Some []"
    by (simp add: w_raced_def w_fresh_def)
  have p1: "binary_path w_installed = engine_u"
    by (simp add: w_installed_def w_fresh_def engine_u_def home_u_def binary_path_def
        ORCHARD_HOME_def)
  have p2: "binary_path w_raced = engine_u"
    by (simp add: w_raced_def w_fresh_def engine_u_def home_u_def binary_path_def
        ORCHARD_HOME_def)
  have x1: "exists w_installed (binary_path w_installed)"
    unfolding p1 by (simp add: w_installed_def exists_def)
  have x2: "\<not> exists w_raced (binary_path w_raced)"
    unfolding p2 by (simp add: w_raced_def w_fresh_def engine_u_def exists_def)
  have h: "ORCHARD_HOME w_raced = ['''', ''home'', ''u'', ''.orchard'']"
    by (simp add: w_raced_def w_fresh_def home_u_def ORCHARD_HOME_def)
  have par: "parents ['''', ''home'', ''u'', ''.orchard'']
               = [[''''], ['''', ''home''], ['''', ''home'', ''u'']]"
    by code_simp
  have m: "mkdir (ORCHARD_HOME w_raced) w_raced = (Inr (), ?w1)"
    unfolding h by (simp add: mkdir_def par is_file_def w_raced_def w_fresh_def)
  have ev: "events ?w1 = [FsState (fs ?w1)]"
    unfolding h by (simp add: mkdir_def par is_file_def set_fs_def w_raced_def w_fresh_def)
  have nw: "network ?w1 = network w_raced"
    unfolding h by (simp add: mkdir_def par is_file_def set_fs_def w_raced_def w_fresh_def)
  have l: "lock_wait w_raced = Acquired ?others"
    by (simp add: w_raced_def)
  have o: "?others (fs ?w1) (binary_path w_raced) \<noteq> None"
    unfolding p2 by simp
  have s: "str_path (ORCHARD_HOME w_raced @ [''install.lock''])
             = ''/home/u/.orchard/install.lock''"
    unfolding h by (simp add: str_path_def)
  show ?thesis
    using e1 e2 x1 x2 m l o
      existing_binary_returned_without_download [OF e1, of ?w1 ?others]
      existing_binary_returned_without_download [OF e2, of ?w1 ?others]
    by (simp add: p1 p2 s ev nw)
qed

section \<open>The lock\<close>

text \<open>
  C8. Started without the lock, \<open>get_engine_path\<close> never ends with the lock held,
  whether it returns a path or raises: the \<open>with\<close> block releases the lock however
  its body ends, so also when the manifest request, the download, the hash check or
  the extraction fails inside it.
\<close>

theorem lock_released_on_every_exit:
  assumes "\<not> lock_held w"
  shows "\<not> lock_held (snd (get_engine_path w))"
proof (cases "environ w ''PIE_LOCAL_BUILD''")
  case None
  then show ?thesis using assms keeps_unlocked_managed
    by (simp add: get_engine_path_def keeps_unlocked_def)
next
  case (Some s)
  then show ?thesis using assms keeps_unlocked_managed
    by (cases s) (simp_all add: get_engine_path_def keeps_unlocked_def Let_def)
qed

text \<open>
  On the fresh machine the manifest request fails inside the critical section; the
  error reaches the caller after the lock was taken and released.
\<close>

theorem lock_released_on_every_exit_witness:
  "\<not> lock_held w_fresh
   \<and> fst (get_engine_path w_fresh) = Inl (ConnectionError MANIFEST_URL)
   \<and> events (snd (get_engine_path w_fresh)) =
       [FsState (fs (snd (get_engine_path w_fresh))),
        LockAcquire ''/home/u/.orchard/install.lock'',
        Print ''Orchard engine not found. Downloading...'',
        HttpGet MANIFEST_URL [(''channel'', ''stable'')],
        LockRelease ''/home/u/.orchard/install.lock'']
   \<and> \<not> lock_held (snd (get_engine_path w_fresh))"
proof -
  have a: "\<not> lock_held w_fresh" by (simp add: w_fresh_def)
  have par: "parents ['''', ''home'', ''u'', ''.orchard'']
               = [[''''], ['''', ''home''], ['''', ''home'', ''u'']]"
    by code_simp
  have g: "get_engine_path w_fresh =
            (Inl (ConnectionError MANIFEST_URL),
             w_fresh\<lparr>fs := (fs w_fresh)(['''', ''home'', ''u'', ''.orchard''] \<mapsto> Dir),
               lock_held := False,
               events := [FsState ((fs w_fresh)(['''', ''home'', ''u'', ''.orchard''] \<mapsto> Dir)),
                 LockAcquire ''/home/u/.orchard/install.lock'',
                 Print ''Orchard engine not found. Downloading...'',
                 HttpGet MANIFEST_URL [(''channel'', ''stable'')],
                 LockRelease ''/home/u/.orchard/install.lock'']\<rparr>)"
    by (simp add: get_engine_path_def managed_engine_path_def bind_def mkdir_def par
        is_file_def set_fs_def with_FileLock_def print_def download_engine_def
        requests_get_def exists_def binary_path_def ORCHARD_HOME_def str_path_def
        DEFAULT_CHANNEL_def w_fresh_def home_u_def)
  show ?thesis using a lock_released_on_every_exit [OF a] by (simp add: g)
qed

section \<open>The installed version\<close>

lemma strip_blank: "\<forall>c\<in>set t. isspace c \<Longrightarrow> strip t = []"
  by (auto simp: strip_def dest: set_dropWhileD)

text \<open>
  C10. When \<open>version.txt\<close> exists and holds nothing but whitespace (or nothing at
  all), \<open>get_installed_version\<close> returns the empty string, and \<open>check_for_updates\<close>
  returns \<open>None\<close> and leaves the world as it was, so without a manifest request: the
  same as it does when the version file does not exist.
\<close>

theorem blank_version_file_is_no_install:
  assumes "fs w (version_file w) = Some (File t md)" and "\<forall>c\<in>set t. isspace c"
  shows "get_installed_version w = (Inr (Some []), w)
       \<and> check_for_updates channel w = (Inr None, w)
       \<and> check_for_updates channel (w\<lparr>fs := (fs w)(version_file w := None)\<rparr>)
           = (Inr None, w\<lparr>fs := (fs w)(version_file w := None)\<rparr>)"
  using assms
  by (simp add: get_installed_version_def check_for_updates_def exists_def read_text_def
      bind_def lift_def strip_blank version_file_def ORCHARD_HOME_def)

theorem blank_version_file_is_no_install_witness:
  "fs w_blank (version_file w_blank) = Some (File [CHR '' '', CHR 0x0A] 420)
   \<and> isspace (CHR '' '') \<and> isspace (CHR 0x0A)
   \<and> get_installed_version w_blank = (Inr (Some []), w_blank)
   \<and> check_for_updates ''stable'' w_blank = (Inr None, w_blank)"
proof -
  have a: "fs w_blank (version_file w_blank) = Some (File [CHR '' '', CHR 0x0A] 420)"
    by (simp add: w_blank_def w_installed_def w_fresh_def version_u_def home_u_def
        version_file_def ORCHARD_HOME_def)
  have b: "\<forall>c\<in>set [CHR '' '', CHR 0x0A]. isspace c"
    by (simp add: isspace_def)
  have c: "isspace (CHR '' '') \<and> isspace (CHR 0x0A)"
    by (simp add: isspace_def)
  show ?thesis using a c blank_version_file_is_no_install [OF a b, of "''stable''"] by simp
qed

end
